theory Spec2Isabelle
  imports Complex_Main
begin

section \<open>Price and sale-probability prediction for used-vehicle listings\<close>

text \<open>
  The three scripts under \<^verbatim>\<open>server/ml\<close> are embedded here:
  \<^verbatim>\<open>predict_realistic.py\<close> (the heuristic predictor),
  \<^verbatim>\<open>predict_quantiles.py\<close> (the learned predictor) and
  \<^verbatim>\<open>train_quantiles.py\<close> (the trainer).

  Numbers: a JSON number is an exact rational. Python computes with IEEE doubles where a
  float literal takes part; the embedding computes the same expressions exactly, so the
  rounding error of doubles, NaN, the infinities and the overflow of integers beyond the
  range of a double are outside the model. Integers are the rationals with denominator 1.
\<close>

subsection \<open>JSON values, dictionaries and Python primitives\<close>

datatype json =
    JNull
  | JBool bool
  | JNum rat
  | JStr string
  | JList "json list"
  | JObj "(string \<times> json) list"

type_synonym payload = "string \<rightharpoonup> json"

datatype error =
    TypeError
  | AttributeError
  | KeyError string
  | ValueError

text \<open>\<^verbatim>\<open>payload.get(k, d)\<close>.\<close>

definition dict_get :: "payload \<Rightarrow> string \<Rightarrow> json \<Rightarrow> json" where
  "dict_get p k d = (case p k of None \<Rightarrow> d | Some v \<Rightarrow> v)"

text \<open>
  A value used as an operand of \<^verbatim>\<open>-\<close>, \<^verbatim>\<open>*\<close>, \<^verbatim>\<open>/\<close> against a number, or compared
  with one: numbers are themselves, \<^verbatim>\<open>True\<close> and \<^verbatim>\<open>False\<close> are 1 and 0 (bool is a
  subclass of int), anything else raises TypeError.
\<close>

fun num_of :: "json \<Rightarrow> error + rat" where
  "num_of (JNum r) = Inr r"
| "num_of (JBool b) = Inr (if b then 1 else 0)"
| "num_of _ = Inl TypeError"

definition bindE :: "error + 'a \<Rightarrow> ('a \<Rightarrow> error + 'b) \<Rightarrow> error + 'b" where
  "bindE m f = (case m of Inl e \<Rightarrow> Inl e | Inr v \<Rightarrow> f v)"

text \<open>\<^verbatim>\<open>str.lower()\<close> on the ASCII letters; other bytes are left as they are.\<close>

definition lower_char :: "char \<Rightarrow> char" where
  "lower_char c =
     (case map_of (zip ''ABCDEFGHIJKLMNOPQRSTUVWXYZ'' ''abcdefghijklmnopqrstuvwxyz'') c of
        None \<Rightarrow> c
      | Some d \<Rightarrow> d)"

definition lower :: "string \<Rightarrow> string" where
  "lower s = map lower_char s"

text \<open>\<^verbatim>\<open>int(x)\<close> of a float truncates towards zero.\<close>

definition py_int :: "rat \<Rightarrow> int" where
  "py_int x = (if 0 \<le> x then \<lfloor>x\<rfloor> else \<lceil>x\<rceil>)"

text \<open>\<^verbatim>\<open>round(x, 2)\<close>: to the nearest multiple of 1/100, a tie to the even one.\<close>

definition round_half_even :: "rat \<Rightarrow> int" where
  "round_half_even x =
     (let f = \<lfloor>x\<rfloor>; d = x - of_int f
      in if d < 1 / 2 then f
         else if 1 / 2 < d then f + 1
         else if even f then f else f + 1)"

definition py_round2 :: "rat \<Rightarrow> rat" where
  "py_round2 x = of_int (round_half_even (x * 100)) / 100"

record prediction =
  p10 :: int
  p50 :: int
  p90 :: int
  prob14 :: rat
  prob30 :: rat

subsection \<open>The heuristic predictor (\<^verbatim>\<open>predict_realistic.py\<close>)\<close>

text \<open>Lines 19 to 31: the base price by age.\<close>

definition base_price_of :: "rat \<Rightarrow> rat" where
  "base_price_of a =
     (if a \<le> 1 then 350000
      else if a \<le> 3 then 250000
      else if a \<le> 5 then 180000
      else if a \<le> 7 then 140000
      else if a \<le> 10 then 100000
      else 70000)"

text \<open>
  Lines 38 to 44: the mileage adjustment. \<^verbatim>\<open>km_penalty\<close> is assigned in both branches,
  \<^verbatim>\<open>km_bonus\<close> only in the second: the pair is (\<^verbatim>\<open>km_penalty\<close>, \<^verbatim>\<open>km_bonus\<close>), the
  bonus \<open>None\<close> where the script leaves it unassigned.
\<close>

definition km_adjust :: "rat \<Rightarrow> rat \<Rightarrow> rat \<times> rat option" where
  "km_adjust bp kd =
     (if kd > 0 then (min (kd * 0.5) (bp * 0.3), None)
      else (let b = min (\<bar>kd\<bar> * 0.3) (bp * 0.15) in (- b, Some b)))"

text \<open>Lines 47 to 50: \<^verbatim>\<open>gear.lower()\<close> exists for a string only.\<close>

fun trans_adjust :: "rat \<Rightarrow> json \<Rightarrow> error + rat" where
  "trans_adjust bp (JStr g) =
     Inr (if lower g \<in> set [''auto'', ''automatic'', ''automat''] then bp * 0.05 else 0)"
| "trans_adjust bp _ = Inl AttributeError"

text \<open>
  Lines 53 to 60: \<^verbatim>\<open>fuel_adjustments.get(fuel_type, 0)\<close>. A list or a dict is unhashable;
  every other value that is not one of the keys gives the default.
\<close>

fun fuel_adjust :: "rat \<Rightarrow> json \<Rightarrow> error + rat" where
  "fuel_adjust bp (JStr f) =
     Inr (if f = ''Electric'' then bp * 0.20
          else if f = ''Hybrid'' then bp * 0.10
          else if f = ''Diesel'' then bp * 0.02
          else 0)"
| "fuel_adjust bp (JList _) = Inl TypeError"
| "fuel_adjust bp (JObj _) = Inl TypeError"
| "fuel_adjust bp _ = Inr 0"

text \<open>The variables of the script when it reaches its last line.\<close>

record realistic =
  age :: rat
  base_price :: rat
  km_diff :: rat
  km_penalty :: rat
  km_bonus :: "rat option"
  trans_adjustment :: rat
  fuel_adjustment :: rat
  equipment_score :: rat
  equipment_adjustment :: rat
  estimated_price :: rat
  outcome :: prediction

text \<open>Lines 82 to 87: the two sale probabilities, from \<^verbatim>\<open>km\<close> and \<^verbatim>\<open>age\<close>.\<close>

definition sale_probability :: "rat \<Rightarrow> rat \<Rightarrow> rat \<times> rat" where
  "sale_probability k a =
     (let km_factor = max 0.2 (min 0.9 (1.0 - k / 250000));
          age_factor = max 0.2 (min 0.9 (1.0 - a / 15));
          pr14 = py_round2 (0.3 + km_factor * 0.25 + age_factor * 0.25);
          pr30 = py_round2 (min 0.95 (pr14 + 0.20))
      in (pr14, pr30))"

definition run_realistic :: "payload \<Rightarrow> error + realistic" where
  "run_realistic payload =
     (let year = dict_get payload ''year'' (JNum 2018);
          km = dict_get payload ''km'' (JNum 100000);
          gear = dict_get payload ''gear'' (JStr ''Manual'');
          fuel_type = dict_get payload ''fuel_type'' (JStr ''Petrol'');
          score = dict_get payload ''equipment_len'' (JNum 0)
      in bindE (num_of year) (\<lambda>y.
         let a = 2025 - y;
             bp = base_price_of a;
             expected_km = a * 12000
         in bindE (num_of km) (\<lambda>k.
         let kd = k - expected_km;
             (pen, bonus) = km_adjust bp kd
         in bindE (trans_adjust bp gear) (\<lambda>ta.
            bindE (fuel_adjust bp fuel_type) (\<lambda>fa.
            bindE (num_of score) (\<lambda>es.
         let ea = min (es * 2000) (bp * 0.10);
             ep = max 30000 (min 500000 (bp - pen + ta + fa + ea));
             (pr14, pr30) = sale_probability k a
         in Inr \<lparr>age = a, base_price = bp, km_diff = kd, km_penalty = pen,
                  km_bonus = bonus, trans_adjustment = ta, fuel_adjustment = fa,
                  equipment_score = es, equipment_adjustment = ea, estimated_price = ep,
                  outcome = \<lparr>p10 = py_int (ep * 0.87), p50 = py_int ep,
                             p90 = py_int (ep * 1.13), prob14 = pr14, prob30 = pr30\<rparr>\<rparr>))))))"

text \<open>
  The same variables as a function of the five values the script has read when no line
  raised: the year, the mileage, the two adjustments that depend on a string, and the
  equipment score.
\<close>

definition realistic_state :: "rat \<Rightarrow> rat \<Rightarrow> rat \<Rightarrow> rat \<Rightarrow> rat \<Rightarrow> realistic" where
  "realistic_state y k ta fa es =
     (let a = 2025 - y;
          bp = base_price_of a;
          kd = k - a * 12000;
          adj = km_adjust bp kd;
          ea = min (es * 2000) (bp * 0.10);
          ep = max 30000 (min 500000 (bp - fst adj + ta + fa + ea));
          pr = sale_probability k a
      in \<lparr>age = a, base_price = bp, km_diff = kd, km_penalty = fst adj,
           km_bonus = snd adj, trans_adjustment = ta, fuel_adjustment = fa,
           equipment_score = es, equipment_adjustment = ea, estimated_price = ep,
           outcome = \<lparr>p10 = py_int (ep * 0.87), p50 = py_int ep,
                      p90 = py_int (ep * 1.13), prob14 = fst pr, prob30 = snd pr\<rparr>\<rparr>)"


text \<open>
  Valid listing attributes: every key that the script reads is absent or has the documented
  type (\<^verbatim>\<open>year\<close> and \<^verbatim>\<open>equipment_len\<close> integers, \<^verbatim>\<open>km\<close> a non-negative number,
  \<^verbatim>\<open>gear\<close> and \<^verbatim>\<open>fuel_type\<close> strings).
\<close>

definition is_integer :: "json \<Rightarrow> bool" where
  "is_integer v = (case v of JNum r \<Rightarrow> r = of_int \<lfloor>r\<rfloor> | _ \<Rightarrow> False)"

definition is_string :: "json \<Rightarrow> bool" where
  "is_string v = (case v of JStr _ \<Rightarrow> True | _ \<Rightarrow> False)"

definition is_nonneg_number :: "json \<Rightarrow> bool" where
  "is_nonneg_number v = (case v of JNum r \<Rightarrow> 0 \<le> r | _ \<Rightarrow> False)"

definition absent_or :: "(json \<Rightarrow> bool) \<Rightarrow> payload \<Rightarrow> string \<Rightarrow> bool" where
  "absent_or ok p k = (case p k of None \<Rightarrow> True | Some v \<Rightarrow> ok v)"

definition valid_attrs :: "payload \<Rightarrow> bool" where
  "valid_attrs p \<longleftrightarrow>
     absent_or is_integer p ''year'' \<and>
     absent_or is_nonneg_number p ''km'' \<and>
     absent_or is_string p ''gear'' \<and>
     absent_or is_string p ''fuel_type'' \<and>
     absent_or is_integer p ''equipment_len''"

subsection \<open>The learned predictor (\<^verbatim>\<open>predict_quantiles.py\<close>)\<close>

text \<open>
  The artifact that \<^verbatim>\<open>joblib.load\<close> returns: three fitted regressors and the feature
  names. A regressor is code of scikit-learn, taken as a parameter: it is given the one
  row of \<^verbatim>\<open>X\<close> and returns a number or raises.
\<close>

type_synonym regressor = "json list \<Rightarrow> error + rat"

record artifact =
  model_p10 :: regressor
  model_p50 :: regressor
  model_p90 :: regressor
  features :: "string list"

text \<open>
  \<^verbatim>\<open>pd.DataFrame([payload])\<close> has one row, with index 0, and one column for each key of the
  payload: a frame is the map from column name to the cell of that row. A missing value
  (\<^verbatim>\<open>None\<close>, \<^verbatim>\<open>NaN\<close>) is the cell \<open>JNull\<close>.
\<close>

type_synonym frame = "string \<rightharpoonup> json"

text \<open>
  Arithmetic of pandas on a cell: a number is used, a missing value gives a missing value,
  anything else raises TypeError.
\<close>

fun cell_num :: "json \<Rightarrow> error + rat option" where
  "cell_num (JNum r) = Inr (Some r)"
| "cell_num (JBool b) = Inr (Some (if b then 1 else 0))"
| "cell_num JNull = Inr None"
| "cell_num _ = Inl TypeError"

fun num_cell :: "rat option \<Rightarrow> json" where
  "num_cell None = JNull"
| "num_cell (Some r) = JNum r"

text \<open>
  \<^verbatim>\<open>str(s)\<close> of a one-row Series \<open>s\<close>: the index label, four spaces, the cell, and on a
  second line the name and the dtype. How pandas prints a cell and names a dtype is a
  parameter.
\<close>

record pandas_text =
  cell_text :: "json \<Rightarrow> string"
  dtype_text :: "json \<Rightarrow> string"

definition series_str :: "pandas_text \<Rightarrow> string \<Rightarrow> json \<Rightarrow> string" where
  "series_str fmt name v =
     ''0    '' @ cell_text fmt v @ [CHR 0x0A] @ ''Name: '' @ name @ '', dtype: '' @ dtype_text fmt v"

text \<open>\<^verbatim>\<open>str(df.get(k, d))\<close> for a string default \<open>d\<close>.\<close>

definition str_get :: "pandas_text \<Rightarrow> frame \<Rightarrow> string \<Rightarrow> string \<Rightarrow> string" where
  "str_get fmt df k d = (case df k of None \<Rightarrow> d | Some v \<Rightarrow> series_str fmt k v)"

text \<open>\<^verbatim>\<open>needle in hay\<close> on strings.\<close>

fun contains :: "string \<Rightarrow> string \<Rightarrow> bool" where
  "contains needle [] = (needle = [])"
| "contains needle (c # cs) = (take (length needle) (c # cs) = needle \<or> contains needle cs)"

definition flag :: "bool \<Rightarrow> json" where
  "flag b = JNum (if b then 1 else 0)"

text \<open>Lines 16 to 24: the frame with its derived columns.\<close>

definition derive_features :: "pandas_text \<Rightarrow> payload \<Rightarrow> error + frame" where
  "derive_features fmt payload =
     (let df = payload
      in bindE (cell_num (dict_get df ''year'' (JNum 2018))) (\<lambda>y.
         let a = map_option (\<lambda>y. 2025 - y) y;
             df = df(''age'' \<mapsto> num_cell a)
         in bindE (cell_num (dict_get df ''km'' (JNum 100000))) (\<lambda>k.
         let kpy = (case (k, a) of (Some k, Some a) \<Rightarrow> Some (k / max a 1) | _ \<Rightarrow> None);
             df = df(''km_per_year'' \<mapsto> num_cell kpy);
             df = df(''is_awd'' \<mapsto> flag (dict_get df ''driveline'' (JStr ''FWD'') = JStr ''AWD''));
             df = df(''is_auto'' \<mapsto> flag (lower (str_get fmt df ''gear'' ''Manual'') = ''auto''));
             df = df(''is_electric'' \<mapsto>
                     flag (dict_get df ''fuel_type'' (JStr ''Petrol'') = JStr ''Electric''));
             df = df(''is_hybrid'' \<mapsto>
                     flag (contains ''Hybrid'' (str_get fmt df ''fuel_type'' ''Petrol'')))
         in Inr df)))"

text \<open>
  The frame that \<open>derive_features\<close> returns when the two arithmetic lines do not raise, as
  a function of the payload and of the year and mileage cells read as numbers.
\<close>

definition derived_frame :: "pandas_text \<Rightarrow> payload \<Rightarrow> rat option \<Rightarrow> rat option \<Rightarrow> frame" where
  "derived_frame fmt p y k =
     p(''age'' \<mapsto> num_cell (map_option (\<lambda>y. 2025 - y) y),
       ''km_per_year'' \<mapsto>
          num_cell (case (k, map_option (\<lambda>y. 2025 - y) y) of
                      (Some k, Some a) \<Rightarrow> Some (k / max a 1) | _ \<Rightarrow> None),
       ''is_awd'' \<mapsto> flag (dict_get p ''driveline'' (JStr ''FWD'') = JStr ''AWD''),
       ''is_auto'' \<mapsto> flag (lower (str_get fmt p ''gear'' ''Manual'') = ''auto''),
       ''is_electric'' \<mapsto> flag (dict_get p ''fuel_type'' (JStr ''Petrol'') = JStr ''Electric''),
       ''is_hybrid'' \<mapsto> flag (contains ''Hybrid'' (str_get fmt p ''fuel_type'' ''Petrol'')))"

text \<open>Lines 27 to 29: a feature that is no column becomes a column of 0.\<close>

fun fill_missing :: "string list \<Rightarrow> frame \<Rightarrow> frame" where
  "fill_missing [] df = df"
| "fill_missing (f # fs) df = fill_missing fs (if df f = None then df(f \<mapsto> JNum 0) else df)"

text \<open>Line 32: \<^verbatim>\<open>df[features].fillna(0)\<close>, the row of \<^verbatim>\<open>X\<close>.\<close>

definition fillna0 :: "json \<Rightarrow> json" where
  "fillna0 v = (if v = JNull then JNum 0 else v)"

definition select_row :: "string list \<Rightarrow> frame \<Rightarrow> error + json list" where
  "select_row fs df =
     (case filter (\<lambda>f. df f = None) fs of
        [] \<Rightarrow> Inr (map (\<lambda>f. fillna0 (the (df f))) fs)
      | f # _ \<Rightarrow> Inl (KeyError f))"

definition feature_row :: "pandas_text \<Rightarrow> string list \<Rightarrow> payload \<Rightarrow> error + json list" where
  "feature_row fmt fs payload =
     bindE (derive_features fmt payload) (\<lambda>df. select_row fs (fill_missing fs df))"

text \<open>Lines 46 to 52: the two probabilities, from the band, \<^verbatim>\<open>km\<close> and \<^verbatim>\<open>year\<close>.\<close>

definition band_probability :: "rat \<Rightarrow> rat \<Rightarrow> rat \<Rightarrow> rat \<times> rat" where
  "band_probability band k y =
     (let band_factor = max 0.1 (min 0.9 (1.0 - band / 500000));
          km_factor = max 0.1 (min 0.9 (1.0 - k / 300000));
          age_factor = max 0.1 (min 0.9 ((y - 2010) / 15));
          pr14 = max 0.15 (min 0.85 (0.3 + band_factor * 0.3 + km_factor * 0.2 + age_factor * 0.2));
          pr30 = min 0.95 (pr14 + 0.15)
      in (pr14, pr30))"

text \<open>Lines 35 to 61.\<close>

definition predict_quantiles :: "pandas_text \<Rightarrow> artifact \<Rightarrow> payload \<Rightarrow> error + prediction" where
  "predict_quantiles fmt model payload =
     bindE (feature_row fmt (features model) payload) (\<lambda>X.
     bindE (model_p10 model X) (\<lambda>y10.
     bindE (model_p50 model X) (\<lambda>y50.
     bindE (model_p90 model X) (\<lambda>y90.
     let band = max 1 (y90 - y10);
         km_value = dict_get payload ''km'' (JNum 100000);
         age_value = dict_get payload ''year'' (JNum 2018)
     in bindE (num_of km_value) (\<lambda>k.
        bindE (num_of age_value) (\<lambda>y.
     let (pr14, pr30) = band_probability band k y
     in Inr \<lparr>p10 = py_int y10, p50 = py_int y50, p90 = py_int y90,
              prob14 = py_round2 pr14, prob30 = py_round2 pr30\<rparr>))))))"

subsection \<open>The feature list of the trainer (\<^verbatim>\<open>train_quantiles.py\<close>, lines 27 to 32)\<close>

definition training_features :: "string list" where
  "training_features =
     [''km'', ''year'', ''age'', ''km_per_year'',
      ''equipment_len'', ''is_awd'', ''is_auto'',
      ''is_electric'', ''is_hybrid'',
      ''season_month'', ''supply_density'']"

subsection \<open>Example inputs\<close>

text \<open>
  The first concrete scenario of the specification: a three-year-old electric car with an
  automatic gearbox and ten items of equipment.
\<close>

definition scenario1 :: payload where
  "scenario1 = [''year'' \<mapsto> JNum 2022, ''km'' \<mapsto> JNum 20000, ''gear'' \<mapsto> JStr ''Automatic'',
                ''driveline'' \<mapsto> JStr ''AWD'', ''fuel_type'' \<mapsto> JStr ''Electric'',
                ''equipment_len'' \<mapsto> JNum 10]"

text \<open>A rendering of cells for the examples: a string as it is, anything else empty.\<close>

definition plain_text :: pandas_text where
  "plain_text = \<lparr>cell_text = (\<lambda>v. case v of JStr s \<Rightarrow> s | _ \<Rightarrow> []), dtype_text = (\<lambda>v. ''object'')\<rparr>"

text \<open>
  Two artifacts with the trainer's feature list: one whose regressors are constant, one
  whose regressors return the \<^verbatim>\<open>km\<close> feature (the first of the row) with an offset.
\<close>

definition flat_artifact :: artifact where
  "flat_artifact = \<lparr>model_p10 = (\<lambda>X. Inr 100000), model_p50 = (\<lambda>X. Inr 150000),
                     model_p90 = (\<lambda>X. Inr 200000), features = training_features\<rparr>"

fun km_reader :: "rat \<Rightarrow> regressor" where
  "km_reader c (JNum k # X) = Inr (c + k)"
| "km_reader c X = Inl ValueError"

definition km_artifact :: artifact where
  "km_artifact = \<lparr>model_p10 = km_reader 100000, model_p50 = km_reader 150000,
                   model_p90 = km_reader 200000, features = training_features\<rparr>"

text \<open>The documented defaults, supplied explicitly.\<close>

definition defaults_payload :: payload where
  "defaults_payload = [''year'' \<mapsto> JNum 2018, ''km'' \<mapsto> JNum 100000, ''gear'' \<mapsto> JStr ''Manual'',
                       ''driveline'' \<mapsto> JStr ''FWD'', ''fuel_type'' \<mapsto> JStr ''Petrol'',
                       ''equipment_len'' \<mapsto> JNum 0]"

section \<open>Properties\<close>

subsection \<open>Errors, rounding and truncation\<close>

lemma bindE_Inr: "bindE m f = Inr r \<longleftrightarrow> (\<exists>v. m = Inr v \<and> f v = Inr r)"
  by (cases m) (simp_all add: bindE_def)

lemma bindE_simps: "bindE (Inr v) f = f v" "bindE (Inl e) f = Inl e"
  by (simp_all add: bindE_def)











subsection \<open>The heuristic predictor\<close>

lemma run_realistic_eq:
  "run_realistic payload =
     bindE (num_of (dict_get payload ''year'' (JNum 2018))) (\<lambda>y.
     bindE (num_of (dict_get payload ''km'' (JNum 100000))) (\<lambda>k.
     bindE (trans_adjust (base_price_of (2025 - y)) (dict_get payload ''gear'' (JStr ''Manual''))) (\<lambda>ta.
     bindE (fuel_adjust (base_price_of (2025 - y)) (dict_get payload ''fuel_type'' (JStr ''Petrol''))) (\<lambda>fa.
     bindE (num_of (dict_get payload ''equipment_len'' (JNum 0))) (\<lambda>es.
       Inr (realistic_state y k ta fa es))))))"
  unfolding run_realistic_def realistic_state_def Let_def
  by (simp add: case_prod_beta)

lemma run_realistic_Inr:
  assumes "run_realistic payload = Inr s"
  shows "\<exists>y k ta fa es.
    num_of (dict_get payload ''year'' (JNum 2018)) = Inr y \<and>
    num_of (dict_get payload ''km'' (JNum 100000)) = Inr k \<and>
    trans_adjust (base_price_of (2025 - y)) (dict_get payload ''gear'' (JStr ''Manual'')) = Inr ta \<and>
    fuel_adjust (base_price_of (2025 - y)) (dict_get payload ''fuel_type'' (JStr ''Petrol'')) = Inr fa \<and>
    num_of (dict_get payload ''equipment_len'' (JNum 0)) = Inr es \<and>
    s = realistic_state y k ta fa es"
  using assms unfolding run_realistic_eq bindE_Inr by blast

lemma realistic_state_fields:
  "age (realistic_state y k ta fa es) = 2025 - y"
  "base_price (realistic_state y k ta fa es) = base_price_of (2025 - y)"
  "km_diff (realistic_state y k ta fa es) = k - (2025 - y) * 12000"
  "km_penalty (realistic_state y k ta fa es) =
     fst (km_adjust (base_price_of (2025 - y)) (k - (2025 - y) * 12000))"
  "km_bonus (realistic_state y k ta fa es) =
     snd (km_adjust (base_price_of (2025 - y)) (k - (2025 - y) * 12000))"
  "equipment_score (realistic_state y k ta fa es) = es"
  "equipment_adjustment (realistic_state y k ta fa es) =
     min (es * 2000) (base_price_of (2025 - y) * 0.10)"
  by (simp_all add: realistic_state_def Let_def)



lemma valid_attrs_values:
  assumes "valid_attrs p"
  shows "\<exists>y k g f es.
    dict_get p ''year'' (JNum 2018) = JNum y \<and>
    dict_get p ''km'' (JNum 100000) = JNum k \<and> 0 \<le> k \<and>
    dict_get p ''gear'' (JStr ''Manual'') = JStr g \<and>
    dict_get p ''fuel_type'' (JStr ''Petrol'') = JStr f \<and>
    dict_get p ''equipment_len'' (JNum 0) = JNum es"
proof -
  have y: "\<exists>y. dict_get p ''year'' (JNum 2018) = JNum y"
    using assms by (auto simp add: valid_attrs_def absent_or_def is_integer_def dict_get_def split: option.splits json.splits)
  have k: "\<exists>k. dict_get p ''km'' (JNum 100000) = JNum k \<and> 0 \<le> k"
    using assms by (auto simp add: valid_attrs_def absent_or_def is_nonneg_number_def dict_get_def split: option.splits json.splits)
  have g: "\<exists>g. dict_get p ''gear'' (JStr ''Manual'') = JStr g"
    using assms by (auto simp add: valid_attrs_def absent_or_def is_string_def dict_get_def split: option.splits json.splits)
  have f: "\<exists>f. dict_get p ''fuel_type'' (JStr ''Petrol'') = JStr f"
    using assms by (auto simp add: valid_attrs_def absent_or_def is_string_def dict_get_def split: option.splits json.splits)
  have e: "\<exists>es. dict_get p ''equipment_len'' (JNum 0) = JNum es"
    using assms by (auto simp add: valid_attrs_def absent_or_def is_integer_def dict_get_def split: option.splits json.splits)
  from y k g f e show ?thesis by blast
qed

lemma valid_attrs_runs:
  assumes "valid_attrs p"
  shows "\<exists>y k ta fa es. run_realistic p = Inr (realistic_state y k ta fa es)"
proof -
  obtain y k g f es where v:
    "dict_get p ''year'' (JNum 2018) = JNum y"
    "dict_get p ''km'' (JNum 100000) = JNum k"
    "dict_get p ''gear'' (JStr ''Manual'') = JStr g"
    "dict_get p ''fuel_type'' (JStr ''Petrol'') = JStr f"
    "dict_get p ''equipment_len'' (JNum 0) = JNum es"
    using valid_attrs_values [OF assms] by blast
  obtain ta where ta: "trans_adjust (base_price_of (2025 - y)) (JStr g) = Inr ta"
    by simp
  obtain fa where fa: "fuel_adjust (base_price_of (2025 - y)) (JStr f) = Inr fa"
    by simp
  have "run_realistic p = Inr (realistic_state y k ta fa es)"
    unfolding run_realistic_eq v by (simp only: num_of.simps bindE_simps ta fa)
  then show ?thesis by blast
qed

lemma scenario1_valid: "valid_attrs scenario1"
  by (simp add: valid_attrs_def absent_or_def scenario1_def is_integer_def is_string_def
      is_nonneg_number_def)

subsection \<open>Claims about the heuristic predictor\<close>



text \<open>
  Claim C7. The base price is the step function of the age with the bands
  \<open>\<le> 1: 350000\<close>, \<open>\<le> 3: 250000\<close>, \<open>\<le> 5: 180000\<close>, \<open>\<le> 7: 140000\<close>, \<open>\<le> 10: 100000\<close>,
  \<open>> 10: 70000\<close>; it does not increase with the age; and it is the base price of every run
  of the heuristic predictor.
\<close>

theorem base_price_step_function:
  "(a \<le> 1 \<longrightarrow> base_price_of a = 350000) \<and>
   (1 < a \<and> a \<le> 3 \<longrightarrow> base_price_of a = 250000) \<and>
   (3 < a \<and> a \<le> 5 \<longrightarrow> base_price_of a = 180000) \<and>
   (5 < a \<and> a \<le> 7 \<longrightarrow> base_price_of a = 140000) \<and>
   (7 < a \<and> a \<le> 10 \<longrightarrow> base_price_of a = 100000) \<and>
   (10 < a \<longrightarrow> base_price_of a = 70000) \<and>
   (a1 \<le> a2 \<longrightarrow> base_price_of a2 \<le> base_price_of a1) \<and>
   (run_realistic payload = Inr s \<longrightarrow> base_price s = base_price_of (age s))"
proof -
  have "base_price s = base_price_of (age s)" if "run_realistic payload = Inr s"
    using run_realistic_Inr [OF that] by (auto simp add: realistic_state_fields)
  then show ?thesis by (simp add: base_price_of_def)
qed

theorem base_price_step_function_witness:
  "(1 < (2::rat) \<and> (2::rat) \<le> 3) \<and> base_price_of 2 = 250000 \<and>
   (2::rat) \<le> 6 \<and> base_price_of 6 \<le> base_price_of 2 \<and>
   (\<exists>s. run_realistic scenario1 = Inr s \<and> base_price s = base_price_of (age s))"
proof -
  obtain s where s: "run_realistic scenario1 = Inr s"
    using valid_attrs_runs [OF scenario1_valid] by blast
  show ?thesis
    using base_price_step_function [of 2 2 6 scenario1 s] s by simp
qed

end
